theory Spec2Isabelle
  imports Main
begin

section \<open>JavaScript string and array operations used by the pipeline\<close>

text \<open>
  JavaScript strings are modelled as \<^typ>\<open>string\<close>. The operations below are the
  built-ins the sources call, given on the ASCII range: \<open>trim\<close> strips the ASCII white
  space and line terminators from both ends, \<open>toUpperCase\<close> maps \<open>a..z\<close> to \<open>A..Z\<close>
  and leaves every other character alone.
\<close>

definition is_ws :: "char \<Rightarrow> bool" where
  "is_ws c = (c = CHR 0x09 \<or> c = CHR 0x0A \<or> c = CHR 0x0B \<or> c = CHR 0x0C
              \<or> c = CHR 0x0D \<or> c = CHR 0x20)"

definition trim :: "string \<Rightarrow> string" where
  "trim s = rev (dropWhile is_ws (rev (dropWhile is_ws s)))"

text \<open>\<open>s.split('\n')\<close>: never the empty array; \<open>''.split('\n')\<close> is \<open>['']\<close>.\<close>

primrec split_nl :: "string \<Rightarrow> string list" where
  "split_nl [] = [[]]"
| "split_nl (c # cs) =
     (if c = CHR 0x0A then [] # split_nl cs
      else (case split_nl cs of [] \<Rightarrow> [[c]] | l # ls \<Rightarrow> (c # l) # ls))"

text \<open>\<open>xs.join(sep)\<close>.\<close>

fun join :: "string \<Rightarrow> string list \<Rightarrow> string" where
  "join sep [] = []"
| "join sep [x] = x"
| "join sep (x # y # ys) = x @ sep @ join sep (y # ys)"

definition upper_char :: "char \<Rightarrow> char" where
  "upper_char c =
     (case map_of (zip ''abcdefghijklmnopqrstuvwxyz'' ''ABCDEFGHIJKLMNOPQRSTUVWXYZ'') c of
        None \<Rightarrow> c
      | Some u \<Rightarrow> u)"

definition toUpperCase :: "string \<Rightarrow> string" where
  "toUpperCase s = map upper_char s"

text \<open>\<open>s.startsWith(p)\<close> and \<open>s.includes(p)\<close>.\<close>

definition startsWith :: "string \<Rightarrow> string \<Rightarrow> bool" where
  "startsWith s p = (take (length p) s = p)"

primrec str_includes :: "string \<Rightarrow> string \<Rightarrow> bool" where
  "str_includes [] p = (p = [])"
| "str_includes (c # cs) p = (startsWith (c # cs) p \<or> str_includes cs p)"

text \<open>\<open>s.replace(pat, rep)\<close> with a string pattern: only the first occurrence.\<close>

primrec replace_first :: "string \<Rightarrow> string \<Rightarrow> string \<Rightarrow> string" where
  "replace_first [] pat rep = (if pat = [] then rep else [])"
| "replace_first (c # cs) pat rep =
     (if startsWith (c # cs) pat then rep @ drop (length pat) (c # cs)
      else c # replace_first cs pat rep)"

section \<open>Configuration\<close>

datatype intent = FACTUAL | CREATIVE

record config =
  gpt :: string
  gemini :: string
  synthesizer :: string

record pipeline =
  name :: string
  config :: config

definition CLASSIFIER_MODEL :: string where
  "CLASSIFIER_MODEL = ''gpt-4o''"

text \<open>The table \<open>DYNAMIC_PIPELINES\<close>, the same in all four files.\<close>

fun DYNAMIC_PIPELINES :: "intent \<Rightarrow> pipeline" where
  "DYNAMIC_PIPELINES FACTUAL =
     \<lparr>name = ''Factual Pipeline (SOTA Base -> Quick Synth)'',
      config = \<lparr>gpt = ''gpt-5'', gemini = ''gemini-2.5-pro'', synthesizer = ''gpt-4o''\<rparr>\<rparr>"
| "DYNAMIC_PIPELINES CREATIVE =
     \<lparr>name = ''Creative Pipeline (SOTA Base -> SOTA Synth)'',
      config = \<lparr>gpt = ''gpt-5'', gemini = ''gemini-2.5-pro'',
                synthesizer = ''gemini-2.5-pro''\<rparr>\<rparr>"

section \<open>Parsing the classifier's answer\<close>

text \<open>
  The four lines that every variant shares (index.js 79-82, the streaming server
  153-156, the two batch scripts 123-126 and 120-123):
  \<^verbatim>\<open>
  const classifierLines = classificationResponse.trim().split('\n');
  const finalClassification = classifierLines.pop().trim().toUpperCase();
  const reasoning = classifierLines.join(' ').replace('Reasoning:', '').trim();
  const intent = finalClassification.includes("CREATIVE") ? "CREATIVE" : "FACTUAL";
  \<close>
  \<open>pop\<close> takes the last element; \<open>split\<close> never returns an empty array
  (lemma \<open>split_nl_not_Nil\<close>), so \<open>pop\<close> always finds one.
\<close>

definition classifierLines :: "string \<Rightarrow> string list" where
  "classifierLines classificationResponse = split_nl (trim classificationResponse)"

definition finalClassification :: "string \<Rightarrow> string" where
  "finalClassification classificationResponse =
     toUpperCase (trim (last (classifierLines classificationResponse)))"

definition reasoning :: "string \<Rightarrow> string" where
  "reasoning classificationResponse =
     trim (replace_first (join '' '' (butlast (classifierLines classificationResponse)))
             ''Reasoning:'' [])"

definition intent_of :: "string \<Rightarrow> intent" where
  "intent_of classificationResponse =
     (if str_includes (finalClassification classificationResponse) ''CREATIVE''
      then CREATIVE else FACTUAL)"



section \<open>Requests, events and the external providers\<close>

text \<open>
  A conversation turn \<open>{role, content}\<close> and the body of a request to \<open>/combine\<close>,
  \<open>{prompt, constraints, chatHistory}\<close>. A field that the JSON body may leave out is an
  option; \<open>truthy\<close> is JavaScript's test of such a value in \<open>!prompt\<close> and
  \<open>constraints ? ... : ''\<close>.
\<close>

record turn =
  role :: string
  content :: string

record request =
  body_prompt :: "string option"
  body_constraints :: "string option"
  body_chatHistory :: "turn list option"

definition truthy :: "string option \<Rightarrow> bool" where
  "truthy v = (case v of None \<Rightarrow> False | Some s \<Rightarrow> s \<noteq> [])"

text \<open>
  The history in the shape each API takes: \<open>{role, content}\<close> for OpenAI,
  \<open>{role, parts: [{text}]}\<close> for Gemini.
\<close>

datatype api_turn = OpenAI_turn string string | Gemini_turn string "string list"

text \<open>
  The providers are outside the repository. A call that is awaited once either throws
  or returns; a streamed call delivers its chunks in order and then either ends or
  throws (a call that throws before its first chunk has no chunks). An OpenAI chunk or
  message may carry no content (\<open>None\<close>); a Gemini chunk's \<open>text()\<close> is a string.
\<close>

datatype 'a attempt = Throws | Returns 'a

datatype 'a chunk_stream = Chunk_stream (chunks: "'a list") (breaks: bool)

text \<open>
  The environment of one request: what each provider does for each model and input,
  and the order in which the chunks of the two concurrent base calls arrive
  (\<open>True\<close>: the next event is model A's).
\<close>

record env =
  openai_create :: "string \<Rightarrow> api_turn list \<Rightarrow> string option attempt"
  openai_stream :: "string \<Rightarrow> api_turn list \<Rightarrow> string option chunk_stream"
  gemini_generate :: "string \<Rightarrow> string \<Rightarrow> string attempt"
  gemini_stream :: "string \<Rightarrow> api_turn list \<Rightarrow> string \<Rightarrow> string chunk_stream"
  arrival :: "bool list"

datatype call =
    OpenAI_create string "api_turn list"
  | OpenAI_stream string "api_turn list"
  | Gemini_generate string string
  | Gemini_stream string "api_turn list" string

text \<open>
  The exceptions that reach the endpoint's outer \<open>catch\<close>: \<open>chatHistory.slice\<close> on a
  missing history and \<open>classificationResponse.trim\<close> on a missing content. The
  \<open>error\<close> event carries the exception's message after
  \<open>An unexpected error occurred: \<close>.
\<close>

datatype exn = Slice_of_undefined | Trim_of_null

datatype event =
    Status string
  | Initial_data string string
  | ModelA_chunk string
  | ModelB_chunk string
  | Fallback_log string
  | Synthesis_chunk string
  | Done string
  | Error exn

datatype response = Bad_request string | Event_stream "event list"

record outcome =
  response :: response
  calls :: "call list"

section \<open>The streaming server\<close>

subsection \<open>Prompt builders\<close>

definition formatChatHistory :: "turn list option \<Rightarrow> string" where
  "formatChatHistory history =
     (case history of
        None \<Rightarrow> ''No previous conversation.''
      | Some h \<Rightarrow>
          if length h = 0 then ''No previous conversation.''
          else join [CHR 0x0A]
                 (map (\<lambda>turn. (if role turn = ''user'' then ''User'' else ''Assistant'')
                               @ '': '' @ content turn) h))"

text \<open>
  \<open>constraints\<close> defaults to \<open>''\<close> when it is not passed; the instruction is added only
  for a non-empty constraint.
\<close>

definition constraintInstruction :: "string option \<Rightarrow> string" where
  \<open>constraintInstruction constraints =
     (if truthy constraints
      then ''

CRITICAL INSTRUCTION: Adhere to this constraint: '' @ the constraints @ ''
''
      else [])\<close>

definition getSynthesisPrompt ::
  "string \<Rightarrow> string \<Rightarrow> string \<Rightarrow> string option \<Rightarrow> turn list \<Rightarrow> string" where
  \<open>getSynthesisPrompt prompt gptResponse geminiResponse constraints chatHistory =
     ''You are an expert synthesizer. Given a conversation history and two new draft responses to the user's latest prompt, your task is to merge them into one superior, cohesive response.

Conversation History:
''
       @ formatChatHistory (Some chatHistory)
       @ ''

User's Latest Prompt: "''
       @ prompt
       @ ''"

---
Draft Response A:
"''
       @ gptResponse
       @ ''"

---
Draft Response B:
"''
       @ geminiResponse
       @ ''"
---
''
       @ constraintInstruction constraints
       @ ''
Synthesize the two drafts into a single, final response that directly and thoughtfully answers the user's latest prompt, maintaining the context of the conversation. Final Response:''\<close>

definition getRefinementPrompt ::
  "string \<Rightarrow> string \<Rightarrow> string option \<Rightarrow> turn list \<Rightarrow> string" where
  \<open>getRefinementPrompt prompt singleResponse constraints chatHistory =
     ''You are an expert editor. Review the following draft response in the context of the conversation history and the user's latest prompt. Your task is to refine and improve it.

Conversation History:
''
       @ formatChatHistory (Some chatHistory)
       @ ''

User's Latest Prompt: "''
       @ prompt
       @ ''"

---
Draft Response to Refine:
"''
       @ singleResponse
       @ ''"
---
''
       @ constraintInstruction constraints
       @ ''
Rewrite the draft to be a superior, final response that directly answers the user's latest prompt and adheres to any constraints. Final Response:''\<close>

definition getClassificationPrompt :: "string \<Rightarrow> turn list \<Rightarrow> string" where
  \<open>getClassificationPrompt prompt chatHistory =
     ''Analyze the user's LATEST prompt in the context of the conversation history. Classify the intent of the LATEST prompt as "FACTUAL" or "CREATIVE".

- "FACTUAL": Requests for explanations, code, technical info, summaries.
- "CREATIVE": Requests for stories, brainstorming, poetry, open-ended tasks.

First, provide a brief reasoning. Second, on a new line, provide the classification.

Conversation History:
''
       @ formatChatHistory (Some chatHistory)
       @ ''

User's Latest Prompt: "''
       @ prompt
       @ ''"

Reasoning:
Classification:''\<close>

subsection \<open>API calls\<close>

definition getGptResponse :: "env \<Rightarrow> string \<Rightarrow> string \<Rightarrow> api_turn list \<Rightarrow> string option" where
  "getGptResponse e prompt modelName chatHistoryForApi =
     (case openai_create e modelName (chatHistoryForApi @ [OpenAI_turn ''user'' prompt]) of
        Returns c \<Rightarrow> c
      | Throws \<Rightarrow> Some (''ERROR: OpenAI API call failed for model '' @ modelName @ ''.''))"

definition convertHistoryForApi :: "turn list option \<Rightarrow> string \<Rightarrow> api_turn list" where
  "convertHistoryForApi history apiType =
     (case history of
        None \<Rightarrow> []
      | Some h \<Rightarrow>
          if apiType = ''openai'' then map (\<lambda>turn. OpenAI_turn (role turn) (content turn)) h
          else if apiType = ''gemini'' then map (\<lambda>turn. Gemini_turn (role turn) [content turn]) h
          else [])"

subsection \<open>Base generation\<close>

text \<open>
  One base call: the accumulated text (\<open>gptResult\<close>, \<open>geminiResult\<close>), the failure flag
  (\<open>gptFailed\<close>, \<open>geminiFailed\<close>) and the events it has sent. The loop body is
  \<open>result += text; sendEvent(chunk, {text})\<close>; the \<open>catch\<close> sets the flag and sends the
  error marker as a chunk, without touching the accumulated text.
\<close>

record task =
  result :: string
  failed :: bool
  emitted :: "event list"

primrec for_await :: "(string \<Rightarrow> event) \<Rightarrow> string list \<Rightarrow> task \<Rightarrow> task" where
  "for_await chunk_event [] t = t"
| "for_await chunk_event (text # rest) t =
     for_await chunk_event rest
       (t\<lparr>result := result t @ text, emitted := emitted t @ [chunk_event text]\<rparr>)"

text \<open>\<open>chunk.choices[0]?.delta?.content || ""\<close>\<close>

definition delta_content :: "string option \<Rightarrow> string" where
  "delta_content c = (case c of None \<Rightarrow> [] | Some s \<Rightarrow> s)"

definition errorA :: string where
  \<open>errorA = ''

--- ERROR: OpenAI API call failed. ---''\<close>

definition errorB :: string where
  \<open>errorB = ''

--- ERROR: Google AI API call failed. ---''\<close>

definition base_task :: "(string \<Rightarrow> event) \<Rightarrow> string \<Rightarrow> string chunk_stream \<Rightarrow> task" where
  "base_task chunk_event marker s =
     (let t = for_await chunk_event (chunks s) \<lparr>result = [], failed = False, emitted = []\<rparr>
      in if breaks s then t\<lparr>failed := True, emitted := emitted t @ [chunk_event marker]\<rparr>
         else t)"

definition gptStream :: "env \<Rightarrow> config \<Rightarrow> api_turn list \<Rightarrow> string \<Rightarrow> string chunk_stream" where
  "gptStream e cfg gptHistoryForApi prompt =
     (let s = openai_stream e (gpt cfg) (gptHistoryForApi @ [OpenAI_turn ''user'' prompt])
      in Chunk_stream (map delta_content (chunks s)) (breaks s))"

definition gptTask :: "env \<Rightarrow> config \<Rightarrow> api_turn list \<Rightarrow> string \<Rightarrow> task" where
  "gptTask e cfg gptHistoryForApi prompt =
     base_task ModelA_chunk errorA (gptStream e cfg gptHistoryForApi prompt)"

definition geminiTask :: "env \<Rightarrow> config \<Rightarrow> api_turn list \<Rightarrow> string \<Rightarrow> task" where
  "geminiTask e cfg geminiHistoryForApi prompt =
     base_task ModelB_chunk errorB (gemini_stream e (gemini cfg) geminiHistoryForApi prompt)"

text \<open>
  The two tasks run concurrently; each keeps the order of its own events, and the
  environment's \<open>arrival\<close> list says whose event comes next. \<open>await Promise.all\<close>
  resumes the handler when both have settled; neither task can reject, since each
  wraps its whole body in \<open>try/catch\<close>.
\<close>

fun interleave :: "bool list \<Rightarrow> 'a list \<Rightarrow> 'a list \<Rightarrow> 'a list" where
  "interleave sched [] ys = ys"
| "interleave sched (x # xs) [] = x # xs"
| "interleave [] (x # xs) (y # ys) = (x # xs) @ (y # ys)"
| "interleave (True # sched) (x # xs) (y # ys) = x # interleave sched xs (y # ys)"
| "interleave (False # sched) (x # xs) (y # ys) = y # interleave sched (x # xs) ys"

subsection \<open>Fallback decision and synthesis\<close>

text \<open>
  Step 3 of the handler: \<open>None\<close> is the branch \<open>return res.end()\<close> taken when both
  base calls failed; otherwise the pair \<open>(synthesisPrompt, fallbackLog)\<close>.
\<close>

definition fallback_decision ::
  "string \<Rightarrow> string option \<Rightarrow> turn list \<Rightarrow> task \<Rightarrow> task \<Rightarrow> (string \<times> string) option" where
  \<open>fallback_decision prompt constraints historyForPrompting gptT geminiT =
     (if failed gptT \<and> failed geminiT then None
      else if failed gptT then
        Some (getRefinementPrompt prompt (result geminiT) constraints historyForPrompting,
              ''Model A failed. Refining Model B's response.'')
      else if failed geminiT then
        Some (getRefinementPrompt prompt (result gptT) constraints historyForPrompting,
              ''Model B failed. Refining Model A's response.'')
      else
        Some (getSynthesisPrompt prompt (result gptT) (result geminiT) constraints
                historyForPrompting, []))\<close>

text \<open>Step 4: the synthesizer's stream, from Gemini or from OpenAI by the model's name.\<close>

definition synth_call :: "string \<Rightarrow> turn list \<Rightarrow> string \<Rightarrow> call" where
  "synth_call synthesizerModel historyForPrompting synthesisPrompt =
     (if startsWith synthesizerModel ''gemini''
      then Gemini_stream synthesizerModel
             (convertHistoryForApi (Some historyForPrompting) ''gemini'') synthesisPrompt
      else OpenAI_stream synthesizerModel
             (convertHistoryForApi (Some historyForPrompting) ''openai''
                @ [OpenAI_turn ''user'' synthesisPrompt]))"

definition synth_stream :: "env \<Rightarrow> string \<Rightarrow> turn list \<Rightarrow> string \<Rightarrow> string chunk_stream" where
  "synth_stream e synthesizerModel historyForPrompting synthesisPrompt =
     (if startsWith synthesizerModel ''gemini''
      then gemini_stream e synthesizerModel
             (convertHistoryForApi (Some historyForPrompting) ''gemini'') synthesisPrompt
      else let s = openai_stream e synthesizerModel
                     (convertHistoryForApi (Some historyForPrompting) ''openai''
                        @ [OpenAI_turn ''user'' synthesisPrompt])
           in Chunk_stream (map delta_content (chunks s)) (breaks s))"

definition fallbackResponse :: "task \<Rightarrow> task \<Rightarrow> string" where
  "fallbackResponse gptT geminiT = (if \<not> failed gptT then result gptT else result geminiT)"

definition synthesis_events :: "string chunk_stream \<Rightarrow> string \<Rightarrow> task \<Rightarrow> task \<Rightarrow> event list" where
  \<open>synthesis_events s fallbackLog gptT geminiT =
     map Synthesis_chunk (chunks s)
     @ (if breaks s
        then [Fallback_log
                (fallbackLog @ '' Synthesis step failed. Displaying best available response.''),
              Synthesis_chunk (''

--- SYNTHESIS FAILED ---
Displaying best available base response:

'' @ fallbackResponse gptT geminiT)]
        else [])\<close>

text \<open>Steps 3 and 4 together: the events sent and the calls made after the join.\<close>

definition synthesis_step ::
  "env \<Rightarrow> string \<Rightarrow> string option \<Rightarrow> turn list \<Rightarrow> config \<Rightarrow> task \<Rightarrow> task
     \<Rightarrow> event list \<times> call list" where
  "synthesis_step e prompt constraints historyForPrompting cfg gptT geminiT =
     (case fallback_decision prompt constraints historyForPrompting gptT geminiT of
        None \<Rightarrow> ([], [])
      | Some (synthesisPrompt, fallbackLog) \<Rightarrow>
          ([Fallback_log fallbackLog, Status ''Synthesizing final response...'']
           @ synthesis_events
               (synth_stream e (synthesizer cfg) historyForPrompting synthesisPrompt)
               fallbackLog gptT geminiT
           @ [Done ''Stream complete.''],
           [synth_call (synthesizer cfg) historyForPrompting synthesisPrompt]))"

subsection \<open>The endpoint\<close>

definition base_events :: "env \<Rightarrow> config \<Rightarrow> turn list \<Rightarrow> string \<Rightarrow> event list" where
  "base_events e cfg historyForPrompting prompt =
     interleave (arrival e)
       (emitted (gptTask e cfg (convertHistoryForApi (Some historyForPrompting) ''openai'') prompt))
       (emitted (geminiTask e cfg (convertHistoryForApi (Some historyForPrompting) ''gemini'')
                   prompt))"

definition base_calls :: "config \<Rightarrow> turn list \<Rightarrow> string \<Rightarrow> call list" where
  "base_calls cfg historyForPrompting prompt =
     [OpenAI_stream (gpt cfg)
        (convertHistoryForApi (Some historyForPrompting) ''openai'' @ [OpenAI_turn ''user'' prompt]),
      Gemini_stream (gemini cfg) (convertHistoryForApi (Some historyForPrompting) ''gemini'')
        prompt]"

definition classifier_call :: "string \<Rightarrow> turn list \<Rightarrow> call" where
  "classifier_call prompt historyForPrompting =
     OpenAI_create CLASSIFIER_MODEL
       [OpenAI_turn ''user'' (getClassificationPrompt prompt historyForPrompting)]"

text \<open>\<open>const pipeline = DYNAMIC_PIPELINES[intent]\<close>\<close>

definition select_pipeline :: "string \<Rightarrow> pipeline" where
  "select_pipeline classificationResponse = DYNAMIC_PIPELINES (intent_of classificationResponse)"

definition pipeline_stage ::
  "env \<Rightarrow> string \<Rightarrow> string option \<Rightarrow> turn list \<Rightarrow> string \<Rightarrow> outcome" where
  "pipeline_stage e prompt constraints historyForPrompting classificationResponse =
     (let pipeline = select_pipeline classificationResponse;
          cfg = config pipeline;
          gptT = gptTask e cfg (convertHistoryForApi (Some historyForPrompting) ''openai'') prompt;
          geminiT = geminiTask e cfg (convertHistoryForApi (Some historyForPrompting) ''gemini'')
                      prompt;
          (synth_evs, synth_calls) =
             synthesis_step e prompt constraints historyForPrompting cfg gptT geminiT
      in \<lparr>response = Event_stream
            ([Status ''Classifying prompt intent...'',
              Initial_data (name pipeline) (reasoning classificationResponse),
              Status ''Generating base responses...'']
             @ base_events e cfg historyForPrompting prompt
             @ synth_evs),
          calls = classifier_call prompt historyForPrompting
                  # base_calls cfg historyForPrompting prompt @ synth_calls\<rparr>)"

text \<open>
  \<open>app.post('/combine', ...)\<close>. \<open>chatHistory.slice(0, -1)\<close> throws on a missing history;
  on an array it drops the last turn.
\<close>

definition combine :: "env \<Rightarrow> request \<Rightarrow> outcome" where
  "combine e req =
     (if \<not> truthy (body_prompt req)
      then \<lparr>response = Bad_request ''Prompt is required.'', calls = []\<rparr>
      else
        case body_chatHistory req of
          None \<Rightarrow> \<lparr>response = Event_stream [Error Slice_of_undefined], calls = []\<rparr>
        | Some h \<Rightarrow>
            let historyForPrompting = butlast h
            in case getGptResponse e
                      (getClassificationPrompt (the (body_prompt req)) historyForPrompting)
                      CLASSIFIER_MODEL [] of
                 None \<Rightarrow>
                   \<lparr>response = Event_stream
                      [Status ''Classifying prompt intent...'', Error Trim_of_null],
                    calls = [classifier_call (the (body_prompt req)) historyForPrompting]\<rparr>
               | Some classificationResponse \<Rightarrow>
                   pipeline_stage e (the (body_prompt req)) (body_constraints req) historyForPrompting
                     classificationResponse)"

section \<open>The non-streaming server (index.js)\<close>

text \<open>
  The first variant answers with one JSON document. Its adapters return the provider's
  text, or an \<open>ERROR: ...\<close> text from their \<open>catch\<close>; the endpoint tells a failed call
  from a successful one by looking for \<open>ERROR\<close> in the text. The two batch scripts
  share this logic (with other wording in the messages).
\<close>

definition getSynthesisPrompt_index :: "string \<Rightarrow> string \<Rightarrow> string \<Rightarrow> string" where
  \<open>getSynthesisPrompt_index prompt gptResponse geminiResponse =
     ''Your persona is a helpful and pragmatic expert. Your task is to synthesize two AI-generated responses into a single, superior answer. Original User Prompt: "''
       @ prompt
       @ ''"

---
Response A:
"''
       @ gptResponse
       @ ''"

---
Response B:
"''
       @ geminiResponse
       @ ''"

---
Instructions:
1. Assess Helpfulness: Prioritize information from the more helpful response.
2. Extract Core Information: Identify key facts.
3. Synthesize: Create a single, cohesive answer.
4. Final Output: Be direct. Do not mention the synthesis process.

Synthesized and Superior Response:''\<close>

definition getRefinementPrompt_index :: "string \<Rightarrow> string \<Rightarrow> string" where
  \<open>getRefinementPrompt_index prompt singleResponse =
     ''Your persona is a helpful and pragmatic expert. Your task is to review and improve the following AI-generated response. The goal is to make it clearer, more comprehensive, and more direct. Original User Prompt: "''
       @ prompt
       @ ''"

---
AI Response to Refine:
"''
       @ singleResponse
       @ ''"

---
Instructions:
1. Analyze the response for clarity, accuracy, and completeness.
2. Rewrite it to be a superior version. Ensure it directly answers the user's prompt.
3. Do not mention the refinement process.

Refined and Superior Response:''\<close>

definition getClassificationPrompt_index :: "string \<Rightarrow> string" where
  \<open>getClassificationPrompt_index prompt =
     ''You are an expert at analyzing user prompts. Your task is to classify the user's intent as either "FACTUAL" or "CREATIVE".

- "FACTUAL" intent involves requests for explanations, code, technical information, summaries, or structured answers.
- "CREATIVE" intent involves requests for stories, brainstorming, poetry, or other open-ended generative tasks.

First, provide a brief, step-by-step reasoning for your decision in one or two sentences.
Second, on a new line, provide the final classification as a single word: FACTUAL or CREATIVE.

User Prompt: "''
       @ prompt
       @ ''"

Reasoning:
Classification:''\<close>

definition getGptResponse_index :: "env \<Rightarrow> string \<Rightarrow> string \<Rightarrow> string option" where
  "getGptResponse_index e prompt modelName =
     (case openai_create e modelName [OpenAI_turn ''user'' prompt] of
        Returns c \<Rightarrow> c
      | Throws \<Rightarrow> Some (''ERROR: OpenAI API call failed for model '' @ modelName @ ''.''))"

definition getGeminiResponse_index :: "env \<Rightarrow> string \<Rightarrow> string \<Rightarrow> string" where
  "getGeminiResponse_index e prompt modelName =
     (case gemini_generate e modelName prompt of
        Returns t \<Rightarrow> t
      | Throws \<Rightarrow> ''ERROR: Google AI API call failed for model '' @ modelName @ ''.'')"

text \<open>
  \<open>synthFn = synthesizerModel.startsWith('gemini') ? getGeminiResponse : getGptResponse\<close>,
  applied to \<open>(synthesisPrompt, synthesizerModel)\<close>, and the call it makes.
\<close>

definition synthFn :: "env \<Rightarrow> string \<Rightarrow> string \<Rightarrow> string option" where
  "synthFn e synthesisPrompt synthesizerModel =
     (if startsWith synthesizerModel ''gemini''
      then Some (getGeminiResponse_index e synthesisPrompt synthesizerModel)
      else getGptResponse_index e synthesisPrompt synthesizerModel)"

definition synthFn_call :: "string \<Rightarrow> string \<Rightarrow> call" where
  "synthFn_call synthesisPrompt synthesizerModel =
     (if startsWith synthesizerModel ''gemini''
      then Gemini_generate synthesizerModel synthesisPrompt
      else OpenAI_create synthesizerModel [OpenAI_turn ''user'' synthesisPrompt])"

text \<open>\<open>gptFailed = gptResult.includes('ERROR')\<close>, and the same for Gemini's result.\<close>

definition failed_index :: "string \<Rightarrow> bool" where
  "failed_index baseResult = str_includes baseResult ''ERROR''"

definition fallback_decision_index :: "string \<Rightarrow> string \<Rightarrow> string \<Rightarrow> (string \<times> string) option" where
  "fallback_decision_index prompt gptR geminiR =
     (if failed_index gptR \<and> failed_index geminiR then None
      else if failed_index gptR then
        Some (getRefinementPrompt_index prompt geminiR,
              ''A primary model was unavailable. Refining the best available response.'')
      else if failed_index geminiR then
        Some (getRefinementPrompt_index prompt gptR,
              ''A primary model was unavailable. Refining the best available response.'')
      else Some (getSynthesisPrompt_index prompt gptR geminiR, []))"

record body =
  finalResponse :: string
  gptResult :: string
  geminiResult :: string
  pipelineName :: string
  fallbackLog :: string
  classifierReasoning :: string

datatype json_response = Status400 string | Status500 string | Status200 body

record outcome_index =
  json :: json_response
  calls_index :: "call list"

text \<open>
  Step 5: the synthesizer's answer, or the surviving base result when that answer
  contains \<open>ERROR\<close>; \<open>None\<close> when the answer has no content (\<open>includes\<close> then throws).
\<close>

definition final_index ::
  "string option \<Rightarrow> string \<Rightarrow> string \<Rightarrow> string \<Rightarrow> (string \<times> string) option" where
  "final_index synthesized gptR geminiR log =
     (case synthesized of
        None \<Rightarrow> None
      | Some final \<Rightarrow>
          if str_includes final ''ERROR''
          then Some (if \<not> failed_index gptR then gptR else geminiR,
                     log @ (if log \<noteq> [] then '' '' else [])
                     @ ''The final synthesis step failed. Displaying the best available response.'')
          else Some (final, log))"

definition synthesis_index ::
  "env \<Rightarrow> string \<Rightarrow> pipeline \<Rightarrow> string \<Rightarrow> string \<Rightarrow> string \<Rightarrow> call list \<Rightarrow> outcome_index" where
  "synthesis_index e prompt pl reason gptR geminiR made =
     (case fallback_decision_index prompt gptR geminiR of
        None \<Rightarrow>
          \<lparr>json = Status200
             \<lparr>finalResponse = ''FATAL: Both primary models failed. Please try again.'',
              gptResult = gptR, geminiResult = geminiR, pipelineName = name pl,
              fallbackLog = ''Both base models failed.'', classifierReasoning = reason\<rparr>,
           calls_index = made\<rparr>
      | Some (synthesisPrompt, log) \<Rightarrow>
          (case final_index (synthFn e synthesisPrompt (synthesizer (config pl))) gptR geminiR log of
             None \<Rightarrow>
               \<lparr>json = Status500 ''An unexpected error occurred.'',
                calls_index = made @ [synthFn_call synthesisPrompt (synthesizer (config pl))]\<rparr>
           | Some (final, log') \<Rightarrow>
               \<lparr>json = Status200
                  \<lparr>finalResponse = final, gptResult = gptR, geminiResult = geminiR,
                   pipelineName = name pl, fallbackLog = log', classifierReasoning = reason\<rparr>,
                calls_index = made @ [synthFn_call synthesisPrompt (synthesizer (config pl))]\<rparr>))"

definition combine_index :: "env \<Rightarrow> string option \<Rightarrow> outcome_index" where
  "combine_index e prompt_field =
     (if \<not> truthy prompt_field
      then \<lparr>json = Status400 ''Prompt is required.'', calls_index = []\<rparr>
      else
        let prompt = the prompt_field;
            classifier = OpenAI_create CLASSIFIER_MODEL
                           [OpenAI_turn ''user'' (getClassificationPrompt_index prompt)]
        in case getGptResponse_index e (getClassificationPrompt_index prompt) CLASSIFIER_MODEL of
             None \<Rightarrow>
               \<lparr>json = Status500 ''An unexpected error occurred.'', calls_index = [classifier]\<rparr>
           | Some classificationResponse \<Rightarrow>
               let pl = select_pipeline classificationResponse;
                   made = [classifier,
                           OpenAI_create (gpt (config pl)) [OpenAI_turn ''user'' prompt],
                           Gemini_generate (gemini (config pl)) prompt]
               in case getGptResponse_index e prompt (gpt (config pl)) of
                    None \<Rightarrow>
                      \<lparr>json = Status500 ''An unexpected error occurred.'', calls_index = made\<rparr>
                  | Some gptR \<Rightarrow>
                      synthesis_index e prompt pl (reasoning classificationResponse) gptR
                        (getGeminiResponse_index e prompt (gemini (config pl))) made)"

section \<open>Reading an event stream\<close>

text \<open>
  What the statements below observe in a response: its events, which of them are
  terminal (\<open>done\<close> or \<open>error\<close>), which come from a base call, which belong to the
  synthesis phase (everything the handler sends after the join), and the texts of
  model A's chunks in the order they were sent.
\<close>

fun events_of :: "response \<Rightarrow> event list" where
  "events_of (Event_stream evs) = evs"
| "events_of (Bad_request msg) = []"

fun terminal :: "event \<Rightarrow> bool" where
  "terminal (Done msg) = True"
| "terminal (Error x) = True"
| "terminal ev = False"

fun is_error :: "event \<Rightarrow> bool" where
  "is_error (Error x) = True"
| "is_error ev = False"

fun from_A :: "event \<Rightarrow> bool" where
  "from_A (ModelA_chunk t) = True"
| "from_A ev = False"

fun from_B :: "event \<Rightarrow> bool" where
  "from_B (ModelB_chunk t) = True"
| "from_B ev = False"

fun chunkA_texts :: "event list \<Rightarrow> string list" where
  "chunkA_texts [] = []"
| "chunkA_texts (ModelA_chunk t # evs) = t # chunkA_texts evs"
| "chunkA_texts (ev # evs) = chunkA_texts evs"

fun synthesis_phase :: "event \<Rightarrow> bool" where
  "synthesis_phase (Fallback_log l) = True"
| "synthesis_phase (Synthesis_chunk t) = True"
| "synthesis_phase (Done m) = True"
| "synthesis_phase (Status m) = (m = ''Synthesizing final response...'')"
| "synthesis_phase ev = False"

section \<open>Concrete requests and environments\<close>

text \<open>
  Inputs at which the endpoint is run below: a request with the prompt \<open>hi\<close> and an
  empty history, the same request without \<open>chatHistory\<close>, and environments in which
  some of the providers fail. \<open>tA_ok\<close>, \<open>tA_bad\<close>, \<open>tB_ok\<close> and \<open>tB_bad\<close> are settled
  base calls.
\<close>

definition r_hi :: request where
  "r_hi = \<lparr>body_prompt = Some ''hi'', body_constraints = None, body_chatHistory = Some []\<rparr>"

definition r_no_history :: request where
  "r_no_history = \<lparr>body_prompt = Some ''hi'', body_constraints = None, body_chatHistory = None\<rparr>"

definition e_dual :: env where
  "e_dual = \<lparr>openai_create = (\<lambda>m msgs. Returns (Some ''FACTUAL'')),
             openai_stream = (\<lambda>m msgs. Chunk_stream [] True),
             gemini_generate = (\<lambda>m p. Throws),
             gemini_stream = (\<lambda>m h p. Chunk_stream [] True),
             arrival = []\<rparr>"

definition e_classifier_down :: env where
  "e_classifier_down =
     \<lparr>openai_create = (\<lambda>m msgs. Throws),
      openai_stream = (\<lambda>m msgs. Chunk_stream [Some ''draft A''] False),
      gemini_generate = (\<lambda>m p. Returns ''draft B''),
      gemini_stream = (\<lambda>m h p. Chunk_stream [''draft B''] False),
      arrival = []\<rparr>"

definition e_error_word :: env where
  "e_error_word =
     \<lparr>openai_create = (\<lambda>m msgs. if m = ''gpt-5'' then Returns (Some ''An ERROR is a mistake.'')
                                else Returns (Some ''FACTUAL'')),
      openai_stream = (\<lambda>m msgs. Chunk_stream [] False),
      gemini_generate = (\<lambda>m p. Returns ''draft B''),
      gemini_stream = (\<lambda>m h p. Chunk_stream [] False),
      arrival = []\<rparr>"

definition e_synth_down :: env where
  "e_synth_down =
     \<lparr>openai_create = (\<lambda>m msgs. Returns (Some ''FACTUAL'')),
      openai_stream = (\<lambda>m msgs. if m = ''gpt-5'' then Chunk_stream [Some ''draft'', None, Some '' A''] False
                                else Chunk_stream [Some ''half an ans''] True),
      gemini_generate = (\<lambda>m p. Returns ''draft B''),
      gemini_stream = (\<lambda>m h p. Chunk_stream [''draft B''] False),
      arrival = [False, True]\<rparr>"

definition e_A_down :: env where
  "e_A_down =
     \<lparr>openai_create = (\<lambda>m msgs. if m = ''gpt-5'' then Throws else Returns (Some ''FACTUAL'')),
      openai_stream = (\<lambda>m msgs. if m = ''gpt-5'' then Chunk_stream [] True
                                else Chunk_stream [Some ''refined B''] False),
      gemini_generate = (\<lambda>m p. Returns ''draft B''),
      gemini_stream = (\<lambda>m h p. Chunk_stream [''draft B''] False),
      arrival = []\<rparr>"

definition e_both_ok :: env where
  "e_both_ok =
     \<lparr>openai_create = (\<lambda>m msgs. if m = ''gpt-5'' then Returns (Some ''draft A'')
                                else Returns (Some ''FACTUAL'')),
      openai_stream = (\<lambda>m msgs. if m = ''gpt-5'' then Chunk_stream [Some ''draft'', None, Some '' A''] False
                                else Chunk_stream [Some ''final''] False),
      gemini_generate = (\<lambda>m p. Returns ''draft B''),
      gemini_stream = (\<lambda>m h p. Chunk_stream [''draft B''] False),
      arrival = [True, False]\<rparr>"

definition tA_ok :: task where
  "tA_ok = \<lparr>result = ''draft A'', failed = False, emitted = [ModelA_chunk ''draft A'']\<rparr>"

definition tA_bad :: task where
  "tA_bad = \<lparr>result = ''dra'', failed = True, emitted = [ModelA_chunk ''dra'', ModelA_chunk errorA]\<rparr>"

definition tB_ok :: task where
  "tB_ok = \<lparr>result = ''draft B'', failed = False, emitted = [ModelB_chunk ''draft B'']\<rparr>"

definition tB_bad :: task where
  "tB_bad = \<lparr>result = [], failed = True, emitted = [ModelB_chunk errorB]\<rparr>"

section \<open>Facts about the string operations\<close>



















section \<open>Facts about the streaming server\<close>

lemma for_await_result: "result (for_await mk ts t) = result t @ concat ts"
  by (induction ts arbitrary: t) auto

lemma for_await_failed: "failed (for_await mk ts t) = failed t"
  by (induction ts arbitrary: t) auto

lemma for_await_emitted: "emitted (for_await mk ts t) = emitted t @ map mk ts"
  by (induction ts arbitrary: t) auto

lemma base_task_result: "result (base_task mk marker s) = concat (chunks s)"
  by (simp add: base_task_def Let_def for_await_result)

lemma base_task_failed: "failed (base_task mk marker s) = breaks s"
  by (simp add: base_task_def Let_def for_await_failed)

lemma base_task_emitted:
  "emitted (base_task mk marker s) = map mk (chunks s) @ (if breaks s then [mk marker] else [])"
  by (simp add: base_task_def Let_def for_await_emitted)

lemma set_interleave: "set (interleave sched xs ys) = set xs \<union> set ys"
  by (induction sched xs ys rule: interleave.induct) auto

lemma filter_interleave_left:
  "\<forall>x\<in>set xs. P x \<Longrightarrow> \<forall>y\<in>set ys. \<not> P y \<Longrightarrow> filter P (interleave sched xs ys) = xs"
  by (induction sched xs ys rule: interleave.induct) (auto simp: filter_id_conv filter_empty_conv)

lemma filter_interleave_right:
  "\<forall>x\<in>set xs. \<not> P x \<Longrightarrow> \<forall>y\<in>set ys. P y \<Longrightarrow> filter P (interleave sched xs ys) = ys"
  by (induction sched xs ys rule: interleave.induct) (auto simp: filter_id_conv filter_empty_conv)

lemma gptTask_emitted_from_A: "\<forall>ev\<in>set (emitted (gptTask e cfg hA p)). from_A ev \<and> \<not> from_B ev \<and> \<not> terminal ev"
  by (auto simp: gptTask_def base_task_emitted)

lemma geminiTask_emitted_from_B: "\<forall>ev\<in>set (emitted (geminiTask e cfg hB p)). from_B ev \<and> \<not> from_A ev \<and> \<not> terminal ev"
  by (auto simp: geminiTask_def base_task_emitted)

lemma base_events_not_terminal: "\<forall>ev\<in>set (base_events e cfg h p). \<not> terminal ev \<and> (from_A ev \<or> from_B ev)"
  using gptTask_emitted_from_A geminiTask_emitted_from_B
  by (fastforce simp: base_events_def set_interleave)

lemma synthesis_events_kind:
  "\<forall>ev\<in>set (synthesis_events s log tA tB). \<not> terminal ev \<and> \<not> from_A ev \<and> \<not> from_B ev"
  by (auto simp: synthesis_events_def)

lemma classifier_error_intent:
  "intent_of ''ERROR: OpenAI API call failed for model gpt-4o.'' = FACTUAL"
  by code_simp

lemma classifier_error_reasoning:
  "reasoning ''ERROR: OpenAI API call failed for model gpt-4o.'' = []"
  by code_simp

lemma getGptResponse_Throws:
  "openai_create e m (hs @ [OpenAI_turn ''user'' p]) = Throws \<Longrightarrow>
   getGptResponse e p m hs = Some (''ERROR: OpenAI API call failed for model '' @ m @ ''.'')"
  by (simp add: getGptResponse_def)

lemma combine_classified:
  assumes "p \<noteq> []"
    and "getGptResponse e (getClassificationPrompt p (butlast hist)) CLASSIFIER_MODEL [] = Some r"
  shows "combine e \<lparr>body_prompt = Some p, body_constraints = c, body_chatHistory = Some hist\<rparr>
         = pipeline_stage e p c (butlast hist) r"
  using assms by (simp add: combine_def truthy_def Let_def)

lemma pipeline_stage_response:
  "response (pipeline_stage e p c h r) =
   Event_stream
     ([Status ''Classifying prompt intent...'',
       Initial_data (name (select_pipeline r)) (reasoning r),
       Status ''Generating base responses...'']
      @ base_events e (config (select_pipeline r)) h p
      @ fst (synthesis_step e p c h (config (select_pipeline r))
               (gptTask e (config (select_pipeline r)) (convertHistoryForApi (Some h) ''openai'') p)
               (geminiTask e (config (select_pipeline r)) (convertHistoryForApi (Some h) ''gemini'') p)))"
  by (simp add: pipeline_stage_def Let_def split: prod.splits)

lemma pipeline_stage_calls:
  "calls (pipeline_stage e p c h r) =
   classifier_call p h # base_calls (config (select_pipeline r)) h p
   @ snd (synthesis_step e p c h (config (select_pipeline r))
               (gptTask e (config (select_pipeline r)) (convertHistoryForApi (Some h) ''openai'') p)
               (geminiTask e (config (select_pipeline r)) (convertHistoryForApi (Some h) ''gemini'') p))"
  by (simp add: pipeline_stage_def Let_def split: prod.splits)

lemma synthesis_step_Some:
  "fallback_decision p c h tA tB = Some (sp, log) \<Longrightarrow>
   synthesis_step e p c h cfg tA tB =
     ([Fallback_log log, Status ''Synthesizing final response...'']
      @ synthesis_events (synth_stream e (synthesizer cfg) h sp) log tA tB
      @ [Done ''Stream complete.''],
      [synth_call (synthesizer cfg) h sp])"
  by (simp add: synthesis_step_def)

lemma synthesis_step_None:
  "fallback_decision p c h tA tB = None \<Longrightarrow> synthesis_step e p c h cfg tA tB = ([], [])"
  by (simp add: synthesis_step_def)

lemma fallback_decision_None: "fallback_decision p c h tA tB = None \<longleftrightarrow> failed tA \<and> failed tB"
  by (simp add: fallback_decision_def)

lemma synthesis_step_kind:
  "\<forall>ev\<in>set (fst (synthesis_step e p c h cfg tA tB)).
      \<not> is_error ev \<and> \<not> from_A ev \<and> \<not> from_B ev \<and> synthesis_phase ev"
  by (cases "fallback_decision p c h tA tB")
     (auto simp: synthesis_step_None synthesis_step_Some synthesis_events_def)

lemma base_events_kind:
  "\<forall>ev\<in>set (base_events e cfg h p). \<not> is_error ev \<and> \<not> terminal ev \<and> \<not> synthesis_phase ev"
  by (auto simp: base_events_def set_interleave gptTask_def geminiTask_def base_task_emitted)

lemma pipeline_stage_no_error:
  "\<forall>ev\<in>set (events_of (response (pipeline_stage e p c h r))). \<not> is_error ev"
  using synthesis_step_kind base_events_kind
  by (auto simp: pipeline_stage_response)

lemma chunkA_texts_append: "chunkA_texts (xs @ ys) = chunkA_texts xs @ chunkA_texts ys"
  by (induction xs rule: chunkA_texts.induct) auto

lemma chunkA_texts_A: "chunkA_texts (map (\<lambda>x. ModelA_chunk (f x)) ts) = map f ts"
  by (induction ts) auto

lemma chunkA_texts_none: "filter from_A evs = [] \<Longrightarrow> chunkA_texts evs = []"
  by (induction evs rule: chunkA_texts.induct) (auto split: if_splits)

lemma chunkA_texts_filter: "chunkA_texts (filter from_A evs) = chunkA_texts evs"
  by (induction evs rule: chunkA_texts.induct) auto

lemma base_events_filter_A:
  "filter from_A (base_events e cfg h p)
   = emitted (gptTask e cfg (convertHistoryForApi (Some h) ''openai'') p)"
  unfolding base_events_def
  using gptTask_emitted_from_A geminiTask_emitted_from_B
  by (intro filter_interleave_left) blast+

lemma base_events_filter_B:
  "filter from_B (base_events e cfg h p)
   = emitted (geminiTask e cfg (convertHistoryForApi (Some h) ''gemini'') p)"
  unfolding base_events_def
  using gptTask_emitted_from_A geminiTask_emitted_from_B
  by (intro filter_interleave_right) blast+

lemma pipeline_stage_chunkA_texts:
  "chunkA_texts (events_of (response (pipeline_stage e p c h r)))
   = chunkA_texts (emitted (gptTask e (config (select_pipeline r))
                     (convertHistoryForApi (Some h) ''openai'') p))"
proof -
  have "filter from_A (fst (synthesis_step e p c h (config (select_pipeline r))
               (gptTask e (config (select_pipeline r)) (convertHistoryForApi (Some h) ''openai'') p)
               (geminiTask e (config (select_pipeline r)) (convertHistoryForApi (Some h) ''gemini'') p)))
        = []"
    using synthesis_step_kind by (simp add: filter_empty_conv)
  then show ?thesis
    by (simp add: pipeline_stage_response chunkA_texts_append chunkA_texts_none
        chunkA_texts_filter [of "base_events _ _ _ _", symmetric] base_events_filter_A)
qed

lemma gptTask_chunkA_texts:
  "chunkA_texts (emitted (gptTask e cfg hA p))
   = map delta_content (chunks (openai_stream e (gpt cfg) (hA @ [OpenAI_turn ''user'' p])))
     @ (if breaks (openai_stream e (gpt cfg) (hA @ [OpenAI_turn ''user'' p])) then [errorA] else [])"
  by (simp add: gptTask_def gptStream_def base_task_emitted Let_def chunkA_texts_append
      chunkA_texts_A comp_def)


lemma events_of_combine_classified:
  assumes "p \<noteq> []"
    and "getGptResponse e (getClassificationPrompt p (butlast hist)) CLASSIFIER_MODEL [] = Some r"
    and "tA = gptTask e (config (select_pipeline r))
                (convertHistoryForApi (Some (butlast hist)) ''openai'') p"
    and "tB = geminiTask e (config (select_pipeline r))
                (convertHistoryForApi (Some (butlast hist)) ''gemini'') p"
  shows "events_of (response (combine e
           \<lparr>body_prompt = Some p, body_constraints = c, body_chatHistory = Some hist\<rparr>))
         = ([Status ''Classifying prompt intent...'',
             Initial_data (name (select_pipeline r)) (reasoning r),
             Status ''Generating base responses...'']
            @ base_events e (config (select_pipeline r)) (butlast hist) p)
           @ fst (synthesis_step e p c (butlast hist) (config (select_pipeline r)) tA tB)"
  using assms by (simp add: combine_classified pipeline_stage_response)

section \<open>C1: one terminal event\<close>

text \<open>
  Once the classifier has answered, the terminal events of the stream are exactly one
  \<open>done\<close>, unless both base calls failed: then the handler returns at
  \<open>return res.end()\<close> and the stream has no terminal event at all.
\<close>

lemma terminal_events_classified:
  assumes "p \<noteq> []"
    and "getGptResponse e (getClassificationPrompt p (butlast hist)) CLASSIFIER_MODEL [] = Some r"
    and "tA = gptTask e (config (select_pipeline r))
                (convertHistoryForApi (Some (butlast hist)) ''openai'') p"
    and "tB = geminiTask e (config (select_pipeline r))
                (convertHistoryForApi (Some (butlast hist)) ''gemini'') p"
  shows "filter terminal (events_of (response (combine e
           \<lparr>body_prompt = Some p, body_constraints = c, body_chatHistory = Some hist\<rparr>)))
         = (if failed tA \<and> failed tB then [] else [Done ''Stream complete.''])"
proof -
  have b: "filter terminal (base_events e (config (select_pipeline r)) (butlast hist) p) = []"
    using base_events_kind by (simp add: filter_empty_conv)
  have s: "filter terminal
             (fst (synthesis_step e p c (butlast hist) (config (select_pipeline r)) tA tB))
           = (if failed tA \<and> failed tB then [] else [Done ''Stream complete.''])"
  proof (cases "fallback_decision p c (butlast hist) tA tB")
    case None
    then show ?thesis
      using fallback_decision_None [of p c "butlast hist" tA tB]
      by (simp add: synthesis_step_None)
  next
    case (Some d)
    obtain sp log where d: "d = (sp, log)" by (cases d)
    have "\<not> (failed tA \<and> failed tB)"
      using Some fallback_decision_None [of p c "butlast hist" tA tB] by auto
    moreover have "filter terminal
        (synthesis_events (synth_stream e (synthesizer (config (select_pipeline r)))
                             (butlast hist) sp) log tA tB) = []"
      using synthesis_events_kind by (simp add: filter_empty_conv)
    ultimately show ?thesis
      using Some d by (simp add: synthesis_step_Some)
  qed
  show ?thesis
    using b s by (simp add: events_of_combine_classified [OF assms])
qed

lemma last_event_classified:
  assumes "p \<noteq> []"
    and "getGptResponse e (getClassificationPrompt p (butlast hist)) CLASSIFIER_MODEL [] = Some r"
    and "tA = gptTask e (config (select_pipeline r))
                (convertHistoryForApi (Some (butlast hist)) ''openai'') p"
    and "tB = geminiTask e (config (select_pipeline r))
                (convertHistoryForApi (Some (butlast hist)) ''gemini'') p"
    and "\<not> (failed tA \<and> failed tB)"
  shows "last (events_of (response (combine e
           \<lparr>body_prompt = Some p, body_constraints = c, body_chatHistory = Some hist\<rparr>)))
         = Done ''Stream complete.''"
proof -
  obtain sp log where "fallback_decision p c (butlast hist) tA tB = Some (sp, log)"
    using assms(5) fallback_decision_None [of p c "butlast hist" tA tB]
    by (cases "fallback_decision p c (butlast hist) tA tB") auto
  then show ?thesis
    by (simp add: events_of_combine_classified [OF assms(1-4)] synthesis_step_Some)
qed

text \<open>
  The two paths on which the handler's outer \<open>catch\<close> runs: each sends one \<open>error\<close>
  event, last.
\<close>

lemma error_paths:
  "p \<noteq> [] \<Longrightarrow>
   events_of (response (combine e
     \<lparr>body_prompt = Some p, body_constraints = c, body_chatHistory = None\<rparr>))
   = [Error Slice_of_undefined]"
  "p \<noteq> [] \<Longrightarrow>
   getGptResponse e (getClassificationPrompt p (butlast hist)) CLASSIFIER_MODEL [] = None \<Longrightarrow>
   events_of (response (combine e
     \<lparr>body_prompt = Some p, body_constraints = c, body_chatHistory = Some hist\<rparr>))
   = [Status ''Classifying prompt intent...'', Error Trim_of_null]"
  by (simp_all add: combine_def truthy_def Let_def)

text \<open>
  C1. The claim: for every request with a non-empty prompt and any history, the
  streaming endpoint emits exactly one terminal event, \<open>done\<close> or \<open>error\<close>, and no
  event follows it; a failure of both base providers still ends with a terminal event.
  The code at a request with the prompt \<open>hi\<close> and an empty history, when both base
  streams throw: the two error markers are the last events, no synthesizer is called,
  and the stream holds neither \<open>done\<close> nor \<open>error\<close>.
\<close>

theorem C1_dual_failure_ends_without_terminal_event:
  "combine e_dual r_hi =
     \<lparr>response = Event_stream
        [Status ''Classifying prompt intent...'',
         Initial_data ''Factual Pipeline (SOTA Base -> Quick Synth)'' [],
         Status ''Generating base responses...'',
         ModelA_chunk errorA, ModelB_chunk errorB],
      calls = [OpenAI_create ''gpt-4o'' [OpenAI_turn ''user'' (getClassificationPrompt ''hi'' [])],
               OpenAI_stream ''gpt-5'' [OpenAI_turn ''user'' ''hi''],
               Gemini_stream ''gemini-2.5-pro'' [] ''hi'']\<rparr>
   \<and> filter terminal (events_of (response (combine e_dual r_hi))) = []"
  by code_simp

section \<open>C2: a failing classifier call\<close>

text \<open>
  The claim as made (a classifier call that errors ends the request with an error,
  with no intent and no pipeline) fails where the classifier call throws and the base
  providers answer: the factual pipeline is announced and run, and the stream ends
  with \<open>done\<close>.
\<close>

theorem C2_counterexample: "openai_create e_classifier_down CLASSIFIER_MODEL
       [OpenAI_turn ''user'' (getClassificationPrompt ''hi'' [])] = Throws
  \<and> response (combine e_classifier_down r_hi) =
   Event_stream [Status ''Classifying prompt intent...'',
      Initial_data ''Factual Pipeline (SOTA Base -> Quick Synth)'' [],
      Status ''Generating base responses...'',
      ModelA_chunk ''draft A'', ModelB_chunk ''draft B'',
      Fallback_log [], Status ''Synthesizing final response...'',
      Synthesis_chunk ''draft A'', Done ''Stream complete.'']"
  by code_simp

text \<open>The adapter of index.js does the same.\<close>

lemma index_classifier_throws:
  assumes "openai_create e CLASSIFIER_MODEL
             [OpenAI_turn ''user'' (getClassificationPrompt_index p)] = Throws"
  shows "getGptResponse_index e (getClassificationPrompt_index p) CLASSIFIER_MODEL
         = Some ''ERROR: OpenAI API call failed for model gpt-4o.''"
  using assms by (simp add: getGptResponse_index_def CLASSIFIER_MODEL_def)

text \<open>
  C2, as the code has it. If the classifier call throws, \<open>getGptResponse\<close> returns the
  text \<open>ERROR: OpenAI API call failed for model gpt-4o.\<close>; that text is parsed like any
  answer, which gives the intent \<open>FACTUAL\<close>; the request runs on through the pipeline
  with that text as the classifier's answer, and its stream carries no \<open>error\<close> event.
\<close>

theorem C2_classifier_failure_defaults_to_factual:
  assumes "p \<noteq> []"
    and "openai_create e CLASSIFIER_MODEL
           [OpenAI_turn ''user'' (getClassificationPrompt p (butlast hist))] = Throws"
  shows "getGptResponse e (getClassificationPrompt p (butlast hist)) CLASSIFIER_MODEL []
           = Some ''ERROR: OpenAI API call failed for model gpt-4o.''
       \<and> intent_of ''ERROR: OpenAI API call failed for model gpt-4o.'' = FACTUAL
       \<and> combine e \<lparr>body_prompt = Some p, body_constraints = c, body_chatHistory = Some hist\<rparr>
           = pipeline_stage e p c (butlast hist)
               ''ERROR: OpenAI API call failed for model gpt-4o.''
       \<and> filter is_error
             (events_of (response (combine e
                \<lparr>body_prompt = Some p, body_constraints = c, body_chatHistory = Some hist\<rparr>)))
           = []"
proof -
  have r: "getGptResponse e (getClassificationPrompt p (butlast hist)) CLASSIFIER_MODEL []
           = Some ''ERROR: OpenAI API call failed for model gpt-4o.''"
    using getGptResponse_Throws [of e CLASSIFIER_MODEL "[]"] assms(2)
    by (simp add: CLASSIFIER_MODEL_def)
  have c: "combine e \<lparr>body_prompt = Some p, body_constraints = c, body_chatHistory = Some hist\<rparr>
           = pipeline_stage e p c (butlast hist)
               ''ERROR: OpenAI API call failed for model gpt-4o.''"
    using assms(1) r by (rule combine_classified)
  have "filter is_error (events_of (response (pipeline_stage e p c (butlast hist)
          ''ERROR: OpenAI API call failed for model gpt-4o.''))) = []"
    using pipeline_stage_no_error by (simp add: filter_empty_conv)
  with r c classifier_error_intent show ?thesis by simp
qed

theorem C2_witness:
  "openai_create e_classifier_down CLASSIFIER_MODEL
     [OpenAI_turn ''user'' (getClassificationPrompt ''hi'' (butlast []))] = Throws
   \<and> getGptResponse e_classifier_down (getClassificationPrompt ''hi'' (butlast []))
         CLASSIFIER_MODEL []
       = Some ''ERROR: OpenAI API call failed for model gpt-4o.''
   \<and> intent_of ''ERROR: OpenAI API call failed for model gpt-4o.'' = FACTUAL
   \<and> combine e_classifier_down
         \<lparr>body_prompt = Some ''hi'', body_constraints = None, body_chatHistory = Some []\<rparr>
       = pipeline_stage e_classifier_down ''hi'' None (butlast [])
           ''ERROR: OpenAI API call failed for model gpt-4o.''
   \<and> filter is_error
         (events_of (response (combine e_classifier_down
            \<lparr>body_prompt = Some ''hi'', body_constraints = None, body_chatHistory = Some []\<rparr>)))
       = []"
proof -
  have ne: "''hi'' \<noteq> []" by simp
  have th: "openai_create e_classifier_down CLASSIFIER_MODEL
              [OpenAI_turn ''user'' (getClassificationPrompt ''hi'' (butlast []))] = Throws"
    by (simp add: e_classifier_down_def)
  show ?thesis
    using th C2_classifier_failure_defaults_to_factual [OF ne th, of None] by blast
qed

section \<open>C3: routing by the classifier's last line\<close>

lemma intent_examples:
  "intent_of ''The user asks for a poem, so this is CREATIVE'' = CREATIVE"
  "intent_of ''Reasoning: a story is asked for.
Classification: creative

'' = CREATIVE"
  "intent_of ''CREATIVE would be wrong here.
Classification: FACTUAL'' = FACTUAL"
  "intent_of ''as;dlfkj'' = FACTUAL"
  "intent_of ''
   '' = FACTUAL"
  by code_simp+


section \<open>C4: the fallback decision\<close>

text \<open>
  In index.js the fallback log is the same text whichever base call failed, so it does
  not say which side failed.
\<close>

theorem C4_counterexample:
  "fallback_decision_index ''hi'' ''ERROR: OpenAI API call failed for model gpt-5.'' ''draft B''
     = Some (getRefinementPrompt_index ''hi'' ''draft B'',
             ''A primary model was unavailable. Refining the best available response.'')
   \<and> fallback_decision_index ''hi'' ''draft A''
         ''ERROR: Google AI API call failed for model gemini-2.5-pro.''
     = Some (getRefinementPrompt_index ''hi'' ''draft A'',
             ''A primary model was unavailable. Refining the best available response.'')"
  by code_simp

text \<open>
  C4, as the code has it. After both base results have settled, the branch taken
  depends only on the two failure flags. Both failed: no synthesizer call is made
  (index.js answers with its \<open>FATAL\<close> record). Exactly one failed: the synthesizer is
  called once, with the refinement prompt built from the surviving result, and the
  fallback log is not empty; in the streaming server it names the failed model, in
  index.js it says only that a primary model was unavailable. Neither failed: the
  synthesizer is called once with the synthesis prompt built from both results, and
  the fallback log is empty. \<open>synthesis_step\<close> is the streaming handler after the join,
  \<open>synthesis_index\<close> is index.js after \<open>Promise.all\<close>.
\<close>

theorem C4_fallback_branches:
  "(failed tA \<and> failed tB \<longrightarrow> snd (synthesis_step e p c h cfg tA tB) = [])
 \<and> (failed tA \<and> \<not> failed tB \<longrightarrow>
      (\<exists>evs. synthesis_step e p c h cfg tA tB =
         (Fallback_log ''Model A failed. Refining Model B's response.'' # evs,
          [synth_call (synthesizer cfg) h (getRefinementPrompt p (result tB) c h)])))
 \<and> (\<not> failed tA \<and> failed tB \<longrightarrow>
      (\<exists>evs. synthesis_step e p c h cfg tA tB =
         (Fallback_log ''Model B failed. Refining Model A's response.'' # evs,
          [synth_call (synthesizer cfg) h (getRefinementPrompt p (result tA) c h)])))
 \<and> (\<not> failed tA \<and> \<not> failed tB \<longrightarrow>
      (\<exists>evs. synthesis_step e p c h cfg tA tB =
         (Fallback_log [] # evs,
          [synth_call (synthesizer cfg) h
             (getSynthesisPrompt p (result tA) (result tB) c h)])))
 \<and> (failed_index a \<and> failed_index b \<longrightarrow>
      synthesis_index e p pl rs a b made =
        \<lparr>json = Status200
           \<lparr>finalResponse = ''FATAL: Both primary models failed. Please try again.'',
            gptResult = a, geminiResult = b, pipelineName = name pl,
            fallbackLog = ''Both base models failed.'', classifierReasoning = rs\<rparr>,
         calls_index = made\<rparr>)
 \<and> (failed_index a \<and> \<not> failed_index b \<longrightarrow>
      fallback_decision_index p a b =
        Some (getRefinementPrompt_index p b,
              ''A primary model was unavailable. Refining the best available response.'')
      \<and> calls_index (synthesis_index e p pl rs a b made) =
          made @ [synthFn_call (getRefinementPrompt_index p b) (synthesizer (config pl))])
 \<and> (\<not> failed_index a \<and> failed_index b \<longrightarrow>
      fallback_decision_index p a b =
        Some (getRefinementPrompt_index p a,
              ''A primary model was unavailable. Refining the best available response.'')
      \<and> calls_index (synthesis_index e p pl rs a b made) =
          made @ [synthFn_call (getRefinementPrompt_index p a) (synthesizer (config pl))])
 \<and> (\<not> failed_index a \<and> \<not> failed_index b \<longrightarrow>
      fallback_decision_index p a b = Some (getSynthesisPrompt_index p a b, [])
      \<and> calls_index (synthesis_index e p pl rs a b made) =
          made @ [synthFn_call (getSynthesisPrompt_index p a b) (synthesizer (config pl))])"
proof -
  have s1: "failed tA \<and> failed tB \<longrightarrow> snd (synthesis_step e p c h cfg tA tB) = []"
    by (simp add: synthesis_step_def fallback_decision_def)
  have s2: "failed tA \<and> \<not> failed tB \<longrightarrow>
      (\<exists>evs. synthesis_step e p c h cfg tA tB =
         (Fallback_log ''Model A failed. Refining Model B's response.'' # evs,
          [synth_call (synthesizer cfg) h (getRefinementPrompt p (result tB) c h)]))"
    by (simp add: synthesis_step_def fallback_decision_def)
  have s3: "\<not> failed tA \<and> failed tB \<longrightarrow>
      (\<exists>evs. synthesis_step e p c h cfg tA tB =
         (Fallback_log ''Model B failed. Refining Model A's response.'' # evs,
          [synth_call (synthesizer cfg) h (getRefinementPrompt p (result tA) c h)]))"
    by (simp add: synthesis_step_def fallback_decision_def)
  have s4: "\<not> failed tA \<and> \<not> failed tB \<longrightarrow>
      (\<exists>evs. synthesis_step e p c h cfg tA tB =
         (Fallback_log [] # evs,
          [synth_call (synthesizer cfg) h
             (getSynthesisPrompt p (result tA) (result tB) c h)]))"
    by (simp add: synthesis_step_def fallback_decision_def)
  have i1: "failed_index a \<and> failed_index b \<longrightarrow>
      synthesis_index e p pl rs a b made =
        \<lparr>json = Status200
           \<lparr>finalResponse = ''FATAL: Both primary models failed. Please try again.'',
            gptResult = a, geminiResult = b, pipelineName = name pl,
            fallbackLog = ''Both base models failed.'', classifierReasoning = rs\<rparr>,
         calls_index = made\<rparr>"
    by (simp add: synthesis_index_def fallback_decision_index_def)
  have i2: "failed_index a \<and> \<not> failed_index b \<longrightarrow>
      fallback_decision_index p a b =
        Some (getRefinementPrompt_index p b,
              ''A primary model was unavailable. Refining the best available response.'')
      \<and> calls_index (synthesis_index e p pl rs a b made) =
          made @ [synthFn_call (getRefinementPrompt_index p b) (synthesizer (config pl))]"
    by (simp add: synthesis_index_def fallback_decision_index_def split: option.splits prod.splits)
  have i3: "\<not> failed_index a \<and> failed_index b \<longrightarrow>
      fallback_decision_index p a b =
        Some (getRefinementPrompt_index p a,
              ''A primary model was unavailable. Refining the best available response.'')
      \<and> calls_index (synthesis_index e p pl rs a b made) =
          made @ [synthFn_call (getRefinementPrompt_index p a) (synthesizer (config pl))]"
    by (simp add: synthesis_index_def fallback_decision_index_def split: option.splits prod.splits)
  have i4: "\<not> failed_index a \<and> \<not> failed_index b \<longrightarrow>
      fallback_decision_index p a b = Some (getSynthesisPrompt_index p a b, [])
      \<and> calls_index (synthesis_index e p pl rs a b made) =
          made @ [synthFn_call (getSynthesisPrompt_index p a b) (synthesizer (config pl))]"
    by (simp add: synthesis_index_def fallback_decision_index_def split: option.splits prod.splits)
  from s1 s2 s3 s4 i1 i2 i3 i4 show ?thesis by blast
qed

theorem C4_witness:
  "snd (synthesis_step e_A_down ''hi'' None [] (config (DYNAMIC_PIPELINES FACTUAL))
          tA_bad tB_bad) = []
   \<and> (\<exists>evs. synthesis_step e_A_down ''hi'' None [] (config (DYNAMIC_PIPELINES FACTUAL))
                tA_bad tB_ok
             = (Fallback_log ''Model A failed. Refining Model B's response.'' # evs,
                [synth_call (synthesizer (config (DYNAMIC_PIPELINES FACTUAL))) []
                   (getRefinementPrompt ''hi'' (result tB_ok) None [])]))
   \<and> (\<exists>evs. synthesis_step e_A_down ''hi'' None [] (config (DYNAMIC_PIPELINES FACTUAL))
                tA_ok tB_bad
             = (Fallback_log ''Model B failed. Refining Model A's response.'' # evs,
                [synth_call (synthesizer (config (DYNAMIC_PIPELINES FACTUAL))) []
                   (getRefinementPrompt ''hi'' (result tA_ok) None [])]))
   \<and> (\<exists>evs. synthesis_step e_A_down ''hi'' None [] (config (DYNAMIC_PIPELINES FACTUAL))
                tA_ok tB_ok
             = (Fallback_log [] # evs,
                [synth_call (synthesizer (config (DYNAMIC_PIPELINES FACTUAL))) []
                   (getSynthesisPrompt ''hi'' (result tA_ok) (result tB_ok) None [])]))
   \<and> calls_index (synthesis_index e_A_down ''hi'' (DYNAMIC_PIPELINES FACTUAL) []
                    ''ERROR: OpenAI API call failed for model gpt-5.''
                    ''ERROR: Google AI API call failed for model gemini-2.5-pro.'' []) = []
   \<and> fallback_decision_index ''hi'' ''ERROR: OpenAI API call failed for model gpt-5.''
         ''draft B''
       = Some (getRefinementPrompt_index ''hi'' ''draft B'',
               ''A primary model was unavailable. Refining the best available response.'')
   \<and> fallback_decision_index ''hi'' ''draft A''
         ''ERROR: Google AI API call failed for model gemini-2.5-pro.''
       = Some (getRefinementPrompt_index ''hi'' ''draft A'',
               ''A primary model was unavailable. Refining the best available response.'')
   \<and> fallback_decision_index ''hi'' ''draft A'' ''draft B''
       = Some (getSynthesisPrompt_index ''hi'' ''draft A'' ''draft B'', [])"
proof -
  have ta: "failed tA_bad" "\<not> failed tA_ok" by (simp_all add: tA_bad_def tA_ok_def)
  have tb: "failed tB_bad" "\<not> failed tB_ok" by (simp_all add: tB_bad_def tB_ok_def)
  have ia: "failed_index ''ERROR: OpenAI API call failed for model gpt-5.''"
           "\<not> failed_index ''draft A''" by code_simp+
  have ib: "failed_index ''ERROR: Google AI API call failed for model gemini-2.5-pro.''"
           "\<not> failed_index ''draft B''" by code_simp+
  note inst = C4_fallback_branches [where e = e_A_down and p = "''hi''" and c = None
      and h = "[]" and cfg = "config (DYNAMIC_PIPELINES FACTUAL)"
      and pl = "DYNAMIC_PIPELINES FACTUAL" and rs = "[]" and made = "[]"]
  show ?thesis
    using ta tb ia ib
      inst [where tA = tA_bad and tB = tB_bad
        and a = "''ERROR: OpenAI API call failed for model gpt-5.''"
        and b = "''ERROR: Google AI API call failed for model gemini-2.5-pro.''"]
      inst [where tA = tA_bad and tB = tB_ok
        and a = "''ERROR: OpenAI API call failed for model gpt-5.''" and b = "''draft B''"]
      inst [where tA = tA_ok and tB = tB_bad and a = "''draft A''"
        and b = "''ERROR: Google AI API call failed for model gemini-2.5-pro.''"]
      inst [where tA = tA_ok and tB = tB_ok and a = "''draft A''" and b = "''draft B''"]
    by (simp add: synthesis_index_def fallback_decision_index_def)
qed

section \<open>C5: what counts as a failed base result\<close>

text \<open>
  C5. The claim: a base result is treated as failed exactly when the adapter's
  \<open>catch\<close> ran, and a text that was returned successfully is never classified as a
  failure by its content. In the streaming server the flags are set in the \<open>catch\<close>
  blocks only (\<open>base_task_failed\<close>). index.js and the batch scripts compute
  \<open>gptFailed = gptResult.includes('ERROR')\<close>: below, OpenAI returns the answer
  \<open>An ERROR is a mistake.\<close> without throwing, and index.js treats model A as failed:
  it reports that a primary model was unavailable and asks the synthesizer to refine
  model B's draft alone. (In this environment \<open>gpt-4o\<close> answers \<open>FACTUAL\<close> to every
  call, the synthesizer's included.)
\<close>

theorem C5_error_word_counts_as_failure:
  "openai_create e_error_word ''gpt-5'' [OpenAI_turn ''user'' ''What is an error?'']
     = Returns (Some ''An ERROR is a mistake.'')
   \<and> failed_index ''An ERROR is a mistake.''
   \<and> combine_index e_error_word (Some ''What is an error?'') =
      \<lparr>json = Status200
         \<lparr>finalResponse = ''FACTUAL'', gptResult = ''An ERROR is a mistake.'',
          geminiResult = ''draft B'',
          pipelineName = ''Factual Pipeline (SOTA Base -> Quick Synth)'',
          fallbackLog = ''A primary model was unavailable. Refining the best available response.'',
          classifierReasoning = []\<rparr>,
       calls_index =
         [OpenAI_create ''gpt-4o''
            [OpenAI_turn ''user'' (getClassificationPrompt_index ''What is an error?'')],
          OpenAI_create ''gpt-5'' [OpenAI_turn ''user'' ''What is an error?''],
          Gemini_generate ''gemini-2.5-pro'' ''What is an error?'',
          OpenAI_create ''gpt-4o''
            [OpenAI_turn ''user'' (getRefinementPrompt_index ''What is an error?'' ''draft B'')]]\<rparr>"
  by code_simp

section \<open>C6: a failing synthesizer\<close>

text \<open>
  The events of a run in which the synthesizer's stream throws after one chunk.
\<close>

lemma synth_down_trace:
  "events_of (response (combine e_synth_down r_hi)) =
     [Status ''Classifying prompt intent...'',
      Initial_data ''Factual Pipeline (SOTA Base -> Quick Synth)'' [],
      Status ''Generating base responses...'',
      ModelB_chunk ''draft B'', ModelA_chunk ''draft'', ModelA_chunk [], ModelA_chunk '' A'',
      Fallback_log [], Status ''Synthesizing final response...'',
      Synthesis_chunk ''half an ans'',
      Fallback_log '' Synthesis step failed. Displaying best available response.'',
      Synthesis_chunk ''

--- SYNTHESIS FAILED ---
Displaying best available base response:

draft A'',
      Done ''Stream complete.'']"
  by code_simp

text \<open>
  index.js makes the same choice when the synthesizer's call throws: the adapter's
  \<open>ERROR: ...\<close> text is replaced by model A's result, or model B's when A's result
  counts as failed, and a note is appended to the fallback log.
\<close>

lemma synthFn_throws:
  assumes "if startsWith m ''gemini'' then gemini_generate e m sp = Throws
           else openai_create e m [OpenAI_turn ''user'' sp] = Throws"
  shows "\<exists>t. synthFn e sp m = Some (''ERROR: '' @ t)"
proof (cases "startsWith m ''gemini''")
  case True
  with assms have "synthFn e sp m
      = Some (''ERROR: '' @ ''Google AI API call failed for model '' @ m @ ''.'')"
    by (simp add: synthFn_def getGeminiResponse_index_def)
  then show ?thesis by blast
next
  case False
  with assms have "synthFn e sp m
      = Some (''ERROR: '' @ ''OpenAI API call failed for model '' @ m @ ''.'')"
    by (simp add: synthFn_def getGptResponse_index_def)
  then show ?thesis by blast
qed

lemma index_synthesizer_failure:
  assumes "if startsWith m ''gemini'' then gemini_generate e m sp = Throws
           else openai_create e m [OpenAI_turn ''user'' sp] = Throws"
  shows "final_index (synthFn e sp m) a b log
         = Some (if failed_index a then b else a,
                 log @ (if log \<noteq> [] then '' '' else [])
                 @ ''The final synthesis step failed. Displaying the best available response.'')"
proof -
  obtain t where t: "synthFn e sp m = Some (''ERROR: '' @ t)"
    using synthFn_throws [OF assms] by blast
  have "str_includes (''ERROR: '' @ t) ''ERROR''"
    by (simp add: startsWith_def)
  with t show ?thesis by (simp add: final_index_def)
qed



section \<open>C7: a request without chatHistory\<close>

text \<open>
  C7. The claim: a request with a non-empty prompt and no \<open>chatHistory\<close> field is
  valid and is processed as if the history were empty. \<open>formatChatHistory\<close> and
  \<open>convertHistoryForApi\<close> both accept a missing history, but the handler calls
  \<open>chatHistory.slice(0, -1)\<close> first: with the field absent this throws, and whatever
  the providers would do, the response is a single \<open>error\<close> event and no provider is
  called.
\<close>

theorem C7_missing_history_fails_request: "combine e r_no_history = \<lparr>response = Event_stream [Error Slice_of_undefined], calls = []\<rparr>"
  by (simp add: combine_def r_no_history_def truthy_def)

section \<open>C8: the join before synthesis\<close>

text \<open>
  index.js awaits both one-shot base calls with \<open>Promise.all\<close> before it decides: its
  synthesizer call, when there is one, is made after both, with a prompt built from
  the two results.
\<close>

lemma index_calls_order:
  assumes "p \<noteq> []"
    and "getGptResponse_index e (getClassificationPrompt_index p) CLASSIFIER_MODEL = Some r"
    and "getGptResponse_index e p (gpt (config (select_pipeline r))) = Some a"
    and "b = getGeminiResponse_index e p (gemini (config (select_pipeline r)))"
  shows "calls_index (combine_index e (Some p))
         = [OpenAI_create CLASSIFIER_MODEL
              [OpenAI_turn ''user'' (getClassificationPrompt_index p)],
            OpenAI_create (gpt (config (select_pipeline r))) [OpenAI_turn ''user'' p],
            Gemini_generate (gemini (config (select_pipeline r))) p]
           @ (case fallback_decision_index p a b of
                None \<Rightarrow> []
              | Some (synthesisPrompt, log) \<Rightarrow>
                  [synthFn_call synthesisPrompt (synthesizer (config (select_pipeline r)))])"
  using assms
  by (simp add: combine_index_def truthy_def Let_def synthesis_index_def
      split: option.splits prod.splits)

text \<open>
  C8. In every run in which the classifier has answered, and for every order in which
  the chunks of the two base calls arrive, the event stream splits in two: a first
  part that holds every event of both base calls (each call's events complete and in
  their own order, the last chunk or the error marker included) and no event of the
  synthesis phase, and a second part that is the synthesis phase computed from the two
  settled calls and holds no base event; the synthesizer's call is made after the two
  base calls. So no fallback log, synthesizer prompt or synthesis chunk comes before
  both base calls have settled.
\<close>

theorem C8_join_before_synthesis:
  assumes "p \<noteq> []"
    and "getGptResponse e (getClassificationPrompt p (butlast hist)) CLASSIFIER_MODEL [] = Some r"
    and "tA = gptTask e (config (select_pipeline r))
                (convertHistoryForApi (Some (butlast hist)) ''openai'') p"
    and "tB = geminiTask e (config (select_pipeline r))
                (convertHistoryForApi (Some (butlast hist)) ''gemini'') p"
  shows "\<exists>pre. events_of (response (combine e
                  \<lparr>body_prompt = Some p, body_constraints = c, body_chatHistory = Some hist\<rparr>))
               = pre @ fst (synthesis_step e p c (butlast hist) (config (select_pipeline r)) tA tB)
             \<and> filter from_A pre = emitted tA
             \<and> filter from_B pre = emitted tB
             \<and> filter synthesis_phase pre = []
             \<and> filter (\<lambda>ev. from_A ev \<or> from_B ev)
                  (fst (synthesis_step e p c (butlast hist) (config (select_pipeline r)) tA tB))
                = []
             \<and> calls (combine e
                  \<lparr>body_prompt = Some p, body_constraints = c, body_chatHistory = Some hist\<rparr>)
               = classifier_call p (butlast hist)
                 # base_calls (config (select_pipeline r)) (butlast hist) p
                 @ snd (synthesis_step e p c (butlast hist) (config (select_pipeline r)) tA tB)"
proof -
  let ?cfg = "config (select_pipeline r)"
  let ?pre = "[Status ''Classifying prompt intent...'',
               Initial_data (name (select_pipeline r)) (reasoning r),
               Status ''Generating base responses...'']
              @ base_events e ?cfg (butlast hist) p"
  have ev: "events_of (response (combine e
              \<lparr>body_prompt = Some p, body_constraints = c, body_chatHistory = Some hist\<rparr>))
            = ?pre @ fst (synthesis_step e p c (butlast hist) ?cfg tA tB)"
    by (rule events_of_combine_classified [OF assms])
  have a: "filter from_A ?pre = emitted tA"
    by (simp add: base_events_filter_A assms(3))
  have b: "filter from_B ?pre = emitted tB"
    by (simp add: base_events_filter_B assms(4))
  have "filter synthesis_phase (base_events e ?cfg (butlast hist) p) = []"
    using base_events_kind by (simp add: filter_empty_conv)
  then have s: "filter synthesis_phase ?pre = []" by simp
  have n: "filter (\<lambda>ev. from_A ev \<or> from_B ev)
             (fst (synthesis_step e p c (butlast hist) ?cfg tA tB)) = []"
    using synthesis_step_kind by (simp add: filter_empty_conv)
  have k: "calls (combine e
              \<lparr>body_prompt = Some p, body_constraints = c, body_chatHistory = Some hist\<rparr>)
           = classifier_call p (butlast hist) # base_calls ?cfg (butlast hist) p
             @ snd (synthesis_step e p c (butlast hist) ?cfg tA tB)"
    using assms by (simp add: combine_classified pipeline_stage_calls)
  from ev a b s n k show ?thesis by blast
qed

theorem C8_witness:
  "getGptResponse e_synth_down (getClassificationPrompt ''hi'' []) CLASSIFIER_MODEL []
     = Some ''FACTUAL''
   \<and> (\<exists>pre. events_of (response (combine e_synth_down r_hi))
             = pre @ [Fallback_log [], Status ''Synthesizing final response...'',
                      Synthesis_chunk ''half an ans'',
                      Fallback_log
                        '' Synthesis step failed. Displaying best available response.'',
                      Synthesis_chunk ''

--- SYNTHESIS FAILED ---
Displaying best available base response:

draft A'',
                      Done ''Stream complete.'']
           \<and> filter from_A pre = [ModelA_chunk ''draft'', ModelA_chunk [], ModelA_chunk '' A'']
           \<and> filter from_B pre = [ModelB_chunk ''draft B'']
           \<and> filter synthesis_phase pre = [])"
proof -
  let ?cfg = "config (select_pipeline ''FACTUAL'')"
  let ?tA = "gptTask e_synth_down ?cfg (convertHistoryForApi (Some (butlast [])) ''openai'') ''hi''"
  let ?tB = "geminiTask e_synth_down ?cfg (convertHistoryForApi (Some (butlast [])) ''gemini'') ''hi''"
  have ne: "''hi'' \<noteq> []" by simp
  have h1: "getGptResponse e_synth_down (getClassificationPrompt ''hi'' (butlast []))
              CLASSIFIER_MODEL [] = Some ''FACTUAL''"
    by (simp add: getGptResponse_def e_synth_down_def)
  have ea: "emitted ?tA = [ModelA_chunk ''draft'', ModelA_chunk [], ModelA_chunk '' A'']"
    by code_simp
  have eb: "emitted ?tB = [ModelB_chunk ''draft B'']"
    by code_simp
  have sy: "fst (synthesis_step e_synth_down ''hi'' None (butlast []) ?cfg ?tA ?tB)
            = [Fallback_log [], Status ''Synthesizing final response...'',
               Synthesis_chunk ''half an ans'',
               Fallback_log '' Synthesis step failed. Displaying best available response.'',
               Synthesis_chunk ''

--- SYNTHESIS FAILED ---
Displaying best available base response:

draft A'',
               Done ''Stream complete.'']"
    by code_simp
  have "\<exists>pre. events_of (response (combine e_synth_down
            \<lparr>body_prompt = Some ''hi'', body_constraints = None, body_chatHistory = Some []\<rparr>))
          = pre @ fst (synthesis_step e_synth_down ''hi'' None (butlast []) ?cfg ?tA ?tB)
        \<and> filter from_A pre = emitted ?tA
        \<and> filter from_B pre = emitted ?tB
        \<and> filter synthesis_phase pre = []
        \<and> filter (\<lambda>ev. from_A ev \<or> from_B ev)
             (fst (synthesis_step e_synth_down ''hi'' None (butlast []) ?cfg ?tA ?tB)) = []
        \<and> calls (combine e_synth_down
             \<lparr>body_prompt = Some ''hi'', body_constraints = None, body_chatHistory = Some []\<rparr>)
          = classifier_call ''hi'' (butlast []) # base_calls ?cfg (butlast []) ''hi''
            @ snd (synthesis_step e_synth_down ''hi'' None (butlast []) ?cfg ?tA ?tB)"
    by (rule C8_join_before_synthesis [OF ne h1 refl refl])
  then have "\<exists>pre. events_of (response (combine e_synth_down r_hi))
             = pre @ [Fallback_log [], Status ''Synthesizing final response...'',
                      Synthesis_chunk ''half an ans'',
                      Fallback_log
                        '' Synthesis step failed. Displaying best available response.'',
                      Synthesis_chunk ''

--- SYNTHESIS FAILED ---
Displaying best available base response:

draft A'',
                      Done ''Stream complete.'']
           \<and> filter from_A pre = [ModelA_chunk ''draft'', ModelA_chunk [], ModelA_chunk '' A'']
           \<and> filter from_B pre = [ModelB_chunk ''draft B'']
           \<and> filter synthesis_phase pre = []"
    unfolding sy ea eb r_hi_def by blast
  with h1 show ?thesis by simp
qed

section \<open>C9: model A's chunks and its one-shot text\<close>

text \<open>
  When the OpenAI call for the base model fails in both modes, the only
  \<open>modelA-chunk\<close> is the streaming handler's error marker, while the one-shot adapter
  \<open>getGptResponse\<close> returns its own \<open>ERROR: ...\<close> text: the two differ.
\<close>

theorem C9_counterexample:
  "breaks (openai_stream e_A_down ''gpt-5'' [OpenAI_turn ''user'' ''hi''])
   \<and> openai_create e_A_down ''gpt-5'' [OpenAI_turn ''user'' ''hi''] = Throws
   \<and> concat (chunkA_texts (events_of (response (combine e_A_down r_hi)))) = errorA
   \<and> getGptResponse e_A_down ''hi'' ''gpt-5'' (convertHistoryForApi (Some []) ''openai'')
       = Some ''ERROR: OpenAI API call failed for model gpt-5.''
   \<and> Some (concat (chunkA_texts (events_of (response (combine e_A_down r_hi)))))
       \<noteq> getGptResponse e_A_down ''hi'' ''gpt-5'' (convertHistoryForApi (Some []) ''openai'')"
  by code_simp

text \<open>
  C9, as the code has it. Take the provider's one-shot content for the same model and
  messages to be the concatenation of the fragments it streams (its contract). Then
  for every streamed base-A call that does not fail, the texts of all \<open>modelA-chunk\<close>
  events, concatenated in the order sent, are the one-shot text \<open>getGptResponse\<close>
  returns for the same prompt, model and history, whatever the arrival order of the
  two base calls' chunks.
\<close>

theorem C9_chunks_concatenate_when_A_succeeds:
  assumes "p \<noteq> []"
    and "getGptResponse e (getClassificationPrompt p (butlast hist)) CLASSIFIER_MODEL [] = Some r"
    and "s = openai_stream e (gpt (config (select_pipeline r)))
               (convertHistoryForApi (Some (butlast hist)) ''openai'' @ [OpenAI_turn ''user'' p])"
    and "\<not> breaks s"
    and "openai_create e (gpt (config (select_pipeline r)))
           (convertHistoryForApi (Some (butlast hist)) ''openai'' @ [OpenAI_turn ''user'' p])
         = Returns (Some (concat (map delta_content (chunks s))))"
  shows "Some (concat (chunkA_texts (events_of (response (combine e
           \<lparr>body_prompt = Some p, body_constraints = c, body_chatHistory = Some hist\<rparr>)))))
         = getGptResponse e p (gpt (config (select_pipeline r)))
             (convertHistoryForApi (Some (butlast hist)) ''openai'')"
  using assms
  by (simp add: combine_classified pipeline_stage_chunkA_texts gptTask_chunkA_texts
      getGptResponse_def)

theorem C9_witness:
  "\<not> breaks (openai_stream e_both_ok ''gpt-5'' [OpenAI_turn ''user'' ''hi''])
   \<and> openai_create e_both_ok ''gpt-5'' [OpenAI_turn ''user'' ''hi''] = Returns (Some ''draft A'')
   \<and> chunkA_texts (events_of (response (combine e_both_ok r_hi))) = [''draft'', [], '' A'']
   \<and> Some (concat (chunkA_texts (events_of (response (combine e_both_ok r_hi)))))
       = getGptResponse e_both_ok ''hi'' ''gpt-5'' []"
proof -
  let ?cfg = "config (select_pipeline ''FACTUAL'')"
  let ?msgs = "convertHistoryForApi (Some (butlast [])) ''openai'' @ [OpenAI_turn ''user'' ''hi'']"
  have ne: "''hi'' \<noteq> []" by simp
  have h1: "getGptResponse e_both_ok (getClassificationPrompt ''hi'' (butlast []))
              CLASSIFIER_MODEL [] = Some ''FACTUAL''"
    by (simp add: getGptResponse_def e_both_ok_def CLASSIFIER_MODEL_def)
  have h2: "\<not> breaks (openai_stream e_both_ok (gpt ?cfg) ?msgs)"
    by code_simp
  have h3: "openai_create e_both_ok (gpt ?cfg) ?msgs
            = Returns (Some (concat (map delta_content
                 (chunks (openai_stream e_both_ok (gpt ?cfg) ?msgs)))))"
    by code_simp
  have g: "gpt ?cfg = ''gpt-5''" by code_simp
  have m: "?msgs = [OpenAI_turn ''user'' ''hi'']" by code_simp
  have t: "chunkA_texts (events_of (response (combine e_both_ok r_hi))) = [''draft'', [], '' A'']"
    by code_simp
  have "Some (concat (chunkA_texts (events_of (response (combine e_both_ok
           \<lparr>body_prompt = Some ''hi'', body_constraints = None, body_chatHistory = Some []\<rparr>)))))
         = getGptResponse e_both_ok ''hi'' (gpt ?cfg)
             (convertHistoryForApi (Some (butlast [])) ''openai'')"
    by (rule C9_chunks_concatenate_when_A_succeeds [OF ne h1 refl h2 h3])
  then have "Some (concat (chunkA_texts (events_of (response (combine e_both_ok r_hi)))))
             = getGptResponse e_both_ok ''hi'' ''gpt-5'' []"
    unfolding g r_hi_def by (simp add: convertHistoryForApi_def)
  moreover have "\<not> breaks (openai_stream e_both_ok ''gpt-5'' [OpenAI_turn ''user'' ''hi''])"
    using h2 unfolding g m .
  moreover have "openai_create e_both_ok ''gpt-5'' [OpenAI_turn ''user'' ''hi'']
                 = Returns (Some ''draft A'')"
    by (simp add: e_both_ok_def)
  ultimately show ?thesis using t by blast
qed

section \<open>C10: the error marker stays out of the answer\<close>

text \<open>
  C10. In the streaming server the text accumulated for a base call is the
  concatenation of the chunks the provider delivered, whether or not the call failed:
  the error marker sent as a chunk is not part of it. And the accumulated text of a
  failed call has no influence on anything after the join: replacing it by any other
  text leaves the synthesizer's prompt, its call and every later event (the fallback
  block included) unchanged.
\<close>

theorem C10_error_marker_stays_out:
  "result (gptTask e cfg hA p)
     = concat (map delta_content (chunks (openai_stream e (gpt cfg) (hA @ [OpenAI_turn ''user'' p]))))
 \<and> result (geminiTask e cfg hB p) = concat (chunks (gemini_stream e (gemini cfg) hB p))
 \<and> (failed tA \<longrightarrow>
      synthesis_step e p c h cfg (tA\<lparr>result := x\<rparr>) tB = synthesis_step e p c h cfg tA tB)
 \<and> (failed tB \<longrightarrow>
      synthesis_step e p c h cfg tA (tB\<lparr>result := y\<rparr>) = synthesis_step e p c h cfg tA tB)"
proof -
  have a: "result (gptTask e cfg hA p)
     = concat (map delta_content (chunks (openai_stream e (gpt cfg) (hA @ [OpenAI_turn ''user'' p]))))"
    by (simp add: gptTask_def gptStream_def base_task_result Let_def)
  have b: "result (geminiTask e cfg hB p) = concat (chunks (gemini_stream e (gemini cfg) hB p))"
    by (simp add: geminiTask_def base_task_result)
  have c: "failed tA \<longrightarrow>
      synthesis_step e p c h cfg (tA\<lparr>result := x\<rparr>) tB = synthesis_step e p c h cfg tA tB"
    by (simp add: synthesis_step_def fallback_decision_def synthesis_events_def
        fallbackResponse_def)
  have d: "failed tB \<longrightarrow>
      synthesis_step e p c h cfg tA (tB\<lparr>result := y\<rparr>) = synthesis_step e p c h cfg tA tB"
    by (simp add: synthesis_step_def fallback_decision_def synthesis_events_def
        fallbackResponse_def)
  from a b c d show ?thesis by blast
qed

theorem C10_witness:
  "failed tA_bad
   \<and> synthesis_step e_A_down ''hi'' None [] (config (DYNAMIC_PIPELINES FACTUAL))
        (tA_bad\<lparr>result := errorA\<rparr>) tB_ok
     = synthesis_step e_A_down ''hi'' None [] (config (DYNAMIC_PIPELINES FACTUAL)) tA_bad tB_ok
   \<and> failed tB_bad
   \<and> synthesis_step e_A_down ''hi'' None [] (config (DYNAMIC_PIPELINES FACTUAL))
        tA_ok (tB_bad\<lparr>result := errorB\<rparr>)
     = synthesis_step e_A_down ''hi'' None [] (config (DYNAMIC_PIPELINES FACTUAL)) tA_ok tB_bad
   \<and> failed (gptTask e_A_down (config (DYNAMIC_PIPELINES FACTUAL)) [] ''hi'')
   \<and> emitted (gptTask e_A_down (config (DYNAMIC_PIPELINES FACTUAL)) [] ''hi'')
     = [ModelA_chunk errorA]
   \<and> result (gptTask e_A_down (config (DYNAMIC_PIPELINES FACTUAL)) [] ''hi'')
     = concat (map delta_content
         (chunks (openai_stream e_A_down (gpt (config (DYNAMIC_PIPELINES FACTUAL)))
                    ([] @ [OpenAI_turn ''user'' ''hi'']))))"
proof -
  have fa: "failed tA_bad" by (simp add: tA_bad_def)
  have fb: "failed tB_bad" by (simp add: tB_bad_def)
  have fg: "failed (gptTask e_A_down (config (DYNAMIC_PIPELINES FACTUAL)) [] ''hi'')"
    by code_simp
  have eg: "emitted (gptTask e_A_down (config (DYNAMIC_PIPELINES FACTUAL)) [] ''hi'')
            = [ModelA_chunk errorA]"
    by code_simp
  show ?thesis
    using fa fb fg eg
      C10_error_marker_stays_out [where e = e_A_down
        and cfg = "config (DYNAMIC_PIPELINES FACTUAL)" and hA = "[]" and p = "''hi''"
        and hB = "[]" and tA = tA_bad and tB = tB_ok and c = None and h = "[]"
        and x = errorA and y = errorB]
      C10_error_marker_stays_out [where e = e_A_down
        and cfg = "config (DYNAMIC_PIPELINES FACTUAL)" and hA = "[]" and p = "''hi''"
        and hB = "[]" and tA = tA_ok and tB = tB_bad and c = None and h = "[]"
        and x = errorA and y = errorB]
    by blast
qed

end
